theory Spec2Isabelle
  imports Complex_Main
begin

section \<open>Lunar phase calculations of \<^verbatim>\<open>src/Moon.ts\<close>\<close>

text \<open>
  The module computes the Moon's age, lunation number, distance, phase and emoji from a
  Julian day number. Its functions are pure. A JavaScript \<^verbatim>\<open>number\<close> is read here as a
  \<^typ>\<open>real\<close>: sums, products, quotients and comparisons are the mathematical ones, and a
  decimal literal of the source is the rational number it denotes. Rounding of IEEE
  doubles, infinities and NaN are outside this reading. Where a property turns on the
  rounding, the lunation number is given a second time on doubles, and where it turns on
  a call that raises, the functions are given a second time with the failure explicit.

  The default argument \<^verbatim>\<open>date = new Date()\<close> reads the clock; every function below
  takes the date explicitly.
\<close>

subsection \<open>Enumerations and run-time values\<close>

text \<open>
  The enum declarations \<^verbatim>\<open>constants/LunarPhase\<close> and \<^verbatim>\<open>constants/Hemisphere\<close> are
  imported by \<^verbatim>\<open>Moon.ts\<close>; their members are the ones the code names.
\<close>

datatype LunarPhase =
    NEW
  | WAXING_CRESCENT
  | FIRST_QUARTER
  | WAXING_GIBBOUS
  | FULL
  | WANING_GIBBOUS
  | LAST_QUARTER
  | WANING_CRESCENT

datatype Hemisphere = NORTHERN | SOUTHERN

text \<open>
  TypeScript types are erased when the code runs, so an argument typed by an enum can
  hold any value. \<open>Member e\<close> is a member of the enum; \<open>Other s\<close> is any other value
  (\<^verbatim>\<open>undefined\<close> included), kept as the text that a template string prints for it.
\<close>

datatype 'a runtime = Member 'a | Other string

fun is_member :: "'a runtime \<Rightarrow> bool" where
  "is_member (Member _) = True"
| "is_member (Other _) = False"

text \<open>
  An options object (\<^verbatim>\<open>Partial<MoonOptions>\<close>) is a map from property names to values;
  the one recognised property is \<^verbatim>\<open>hemisphere\<close>. An omitted \<^verbatim>\<open>options\<close> argument is
  \<open>None\<close>.
\<close>

type_synonym MoonOptions = "string \<rightharpoonup> Hemisphere runtime"

datatype error = InvalidLunarPhase string

subsection \<open>Imported declarations\<close>

text \<open>
  \<^verbatim>\<open>Moon.ts\<close> imports \<^verbatim>\<open>JulianDay.fromDate\<close>, two of the constants of
  \<^verbatim>\<open>constants/Time\<close> whose values the specification does not give, and the two emoji
  tables of \<^verbatim>\<open>constants/LunarEmoji\<close>. They are parameters of the model. A table maps a
  property name to its glyph.
\<close>

record 'date env =
  fromDate :: "'date \<Rightarrow> real"
  ANOMALISTIC_MONTH :: real
  LUNATION_BASE_JULIAN_DAY :: real
  NorthernHemisphereLunarEmoji :: "string \<Rightarrow> string"
  SouthernHemisphereLunarEmoji :: "string \<Rightarrow> string"

text \<open>
  Modelled from the spec: the constant \<^verbatim>\<open>SYNODIC_MONTH\<close> of \<^verbatim>\<open>constants/Time\<close> is not
  among the sources; the specification gives its value, 29.53058770576 days.
\<close>

definition SYNODIC_MONTH :: real where
  "SYNODIC_MONTH = 29.53058770576"

text \<open>
  Modelled from the spec: \<^verbatim>\<open>normalize\<close> of \<^verbatim>\<open>utils/MathUtil\<close> is not among the sources;
  the specification gives \<open>normalize(x) = x - floor(x)\<close>.
\<close>

definition normalize_MathUtil :: "real \<Rightarrow> real" where
  "normalize_MathUtil x = x - of_int \<lfloor>x\<rfloor>"

text \<open>
  Modelled from the spec: \<^verbatim>\<open>MoonOptionsFactory\<close> of \<^verbatim>\<open>MoonOptions\<close> is not among the
  sources; the specification gives the default record \<open>{ hemisphere: NORTHERN }\<close>.
\<close>

definition MoonOptionsFactory :: MoonOptions where
  "MoonOptionsFactory = [''hemisphere'' \<mapsto> Member NORTHERN]"

text \<open>
  \<^verbatim>\<open>Math.round\<close> of ECMAScript returns the integer nearest to its argument, and of two
  equally near integers the one towards plus infinity.
\<close>

definition Math_round :: "real \<Rightarrow> int" where
  "Math_round x = \<lfloor>x + 1 / 2\<rfloor>"

subsection \<open>Age and lunation number\<close>

definition lunarAgePercent :: "'date env \<Rightarrow> 'date \<Rightarrow> real" where
  "lunarAgePercent E date =
     normalize_MathUtil ((fromDate E date - 2451550.1) / SYNODIC_MONTH)"

definition lunarAge :: "'date env \<Rightarrow> 'date \<Rightarrow> real" where
  "lunarAge E date = (let percent = lunarAgePercent E date in percent * SYNODIC_MONTH)"

definition lunationNumber :: "'date env \<Rightarrow> 'date \<Rightarrow> int" where
  "lunationNumber E date =
     Math_round ((fromDate E date - LUNATION_BASE_JULIAN_DAY E) / SYNODIC_MONTH) + 1"

subsection \<open>Distance\<close>

definition lunarDistance :: "'date env \<Rightarrow> 'date \<Rightarrow> real" where
  "lunarDistance E date =
     (let julian = fromDate E date;
          agePercent = lunarAgePercent E date;
          radians = agePercent * 2 * pi;
          percent = 2 * pi * normalize_MathUtil ((julian - 2451562.2) / ANOMALISTIC_MONTH E)
      in 60.4 - 3.3 * cos percent - 0.6 * cos (2 * radians - percent)
           - 0.5 * cos (2 * radians))"

subsection \<open>Phase\<close>

text \<open>The \<^verbatim>\<open>options\<close> parameter of \<^verbatim>\<open>lunarPhase\<close> is declared and never read.\<close>

definition lunarPhase :: "'date env \<Rightarrow> 'date \<Rightarrow> MoonOptions option \<Rightarrow> LunarPhase" where
  "lunarPhase E date options =
     (let age = lunarAge E date in
      if age < 1.84566173161 then NEW
      else if age < 5.53698519483 then WAXING_CRESCENT
      else if age < 9.22830865805 then FIRST_QUARTER
      else if age < 12.91963212127 then WAXING_GIBBOUS
      else if age < 16.61095558449 then FULL
      else if age < 20.30227904771 then WANING_GIBBOUS
      else if age < 23.99360251093 then LAST_QUARTER
      else if age < 27.68492597415 then WANING_CRESCENT
      else NEW)"

subsection \<open>Emoji\<close>

text \<open>
  The object spread \<^verbatim>\<open>{...MoonOptionsFactory(), ...options}\<close> is map override, and
  spreading \<^verbatim>\<open>undefined\<close> adds nothing. The \<^verbatim>\<open>switch\<close> compares the argument with
  each enum member in the order of the source; its \<^verbatim>\<open>default\<close> branch throws.
\<close>

definition emojiForLunarPhase ::
    "'date env \<Rightarrow> LunarPhase runtime \<Rightarrow> MoonOptions option \<Rightarrow> error + string" where
  "emojiForLunarPhase E phase options =
     (let merged = (case options of None \<Rightarrow> MoonOptionsFactory
                                  | Some opts \<Rightarrow> MoonOptionsFactory ++ opts);
          hemisphere = merged ''hemisphere'';
          emoji = (if hemisphere = Some (Member SOUTHERN)
                   then NorthernHemisphereLunarEmoji E
                   else SouthernHemisphereLunarEmoji E)
      in case phase of
           Member NEW \<Rightarrow> Inr (emoji ''NEW'')
         | Member WANING_CRESCENT \<Rightarrow> Inr (emoji ''WANING_CRESCENT'')
         | Member LAST_QUARTER \<Rightarrow> Inr (emoji ''LAST_QUARTER'')
         | Member WANING_GIBBOUS \<Rightarrow> Inr (emoji ''WANING_GIBBOUS'')
         | Member FULL \<Rightarrow> Inr (emoji ''FULL'')
         | Member WAXING_GIBBOUS \<Rightarrow> Inr (emoji ''WAXING_GIBBOUS'')
         | Member FIRST_QUARTER \<Rightarrow> Inr (emoji ''FIRST_QUARTER'')
         | Member WAXING_CRESCENT \<Rightarrow> Inr (emoji ''WAXING_CRESCENT'')
         | Other v \<Rightarrow> Inl (InvalidLunarPhase v))"

text \<open>\<^verbatim>\<open>lunarPhaseEmoji\<close> calls \<^verbatim>\<open>lunarPhase(date)\<close> with no options.\<close>

definition lunarPhaseEmoji ::
    "'date env \<Rightarrow> 'date \<Rightarrow> MoonOptions option \<Rightarrow> error + string" where
  "lunarPhaseEmoji E date options =
     (let phase = lunarPhase E date None in emojiForLunarPhase E (Member phase) options)"

subsection \<open>Waxing and waning\<close>

definition isWaxing :: "'date env \<Rightarrow> 'date \<Rightarrow> bool" where
  "isWaxing E date = (let age = lunarAge E date in age \<le> 14.765)"

definition isWaning :: "'date env \<Rightarrow> 'date \<Rightarrow> bool" where
  "isWaning E date = (let age = lunarAge E date in age > 14.765)"

subsection \<open>Notions used to state the properties\<close>

text \<open>
  The property name under which a table holds the glyph of a phase: the name of the enum
  member.
\<close>

fun LunarPhase_key :: "LunarPhase \<Rightarrow> string" where
  "LunarPhase_key NEW = ''NEW''"
| "LunarPhase_key WAXING_CRESCENT = ''WAXING_CRESCENT''"
| "LunarPhase_key FIRST_QUARTER = ''FIRST_QUARTER''"
| "LunarPhase_key WAXING_GIBBOUS = ''WAXING_GIBBOUS''"
| "LunarPhase_key FULL = ''FULL''"
| "LunarPhase_key WANING_GIBBOUS = ''WANING_GIBBOUS''"
| "LunarPhase_key LAST_QUARTER = ''LAST_QUARTER''"
| "LunarPhase_key WANING_CRESCENT = ''WANING_CRESCENT''"

text \<open>
  The resolved hemisphere: the \<^verbatim>\<open>hemisphere\<close> property of the caller's options merged
  over the defaults. \<open>None\<close> is JavaScript's \<^verbatim>\<open>undefined\<close>.
\<close>

definition resolved_hemisphere :: "MoonOptions option \<Rightarrow> Hemisphere runtime option" where
  "resolved_hemisphere options =
     (case options of
        None \<Rightarrow> MoonOptionsFactory ''hemisphere''
      | Some opts \<Rightarrow> (MoonOptionsFactory ++ opts) ''hemisphere'')"

text \<open>
  The two rounding rules that the specification names for the lunation number, written
  from its words: to the nearest integer, a tie going away from zero, or a tie going to
  the even neighbour.
\<close>

definition round_half_away_from_zero :: "real \<Rightarrow> int" where
  "round_half_away_from_zero x = (if 0 \<le> x then \<lfloor>x + 1 / 2\<rfloor> else \<lceil>x - 1 / 2\<rceil>)"

definition round_half_to_even :: "real \<Rightarrow> int" where
  "round_half_to_even x =
     (let f = \<lfloor>x\<rfloor>; r = x - of_int f in
      if r < 1 / 2 then f
      else if 1 / 2 < r then f + 1
      else if even f then f else f + 1)"

text \<open>
  A concrete environment for evaluating the functions: a date is given by its Julian day
  number, the base of the lunation count is the Julian day of 17 January 1923, about
  02:41 UTC, and each table entry spells out its hemisphere and key.
\<close>

definition sample_env :: "real env" where
  "sample_env =
     \<lparr>fromDate = (\<lambda>julian. julian),
      ANOMALISTIC_MONTH = 27.55454988,
      LUNATION_BASE_JULIAN_DAY = 2423436.6115277777,
      NorthernHemisphereLunarEmoji = (\<lambda>key. ''north '' @ key),
      SouthernHemisphereLunarEmoji = (\<lambda>key. ''south '' @ key)\<rparr>"

subsection \<open>The lunation number on doubles\<close>

text \<open>
  A JavaScript number is an IEEE 754 binary64 value, and each arithmetic operation
  returns the double nearest to its exact result. \<open>binary64 x\<close> is the double nearest to
  the real \<open>x\<close>, a tie going to the even significand: \<open>x\<close> is scaled so that the unit
  in the last of the 53 significand bits becomes 1 and then rounded to an integer. This
  covers the normal range of doubles; overflow and subnormal numbers are left out.
\<close>

definition binary64 :: "real \<Rightarrow> real" where
  "binary64 x =
     (if x = 0 then 0
      else (let e = \<lfloor>log 2 \<bar>x\<bar>\<rfloor>; ulp = 2 powr (of_int e - 52)
            in of_int (round_half_to_even (x / ulp)) * ulp))"

text \<open>
  \<^verbatim>\<open>lunationNumber\<close> as it runs: the Julian day and the two constants are doubles, the
  subtraction and the division each round their exact result, and \<^verbatim>\<open>Math.round\<close> and
  the addition of 1 are exact on the integers below \<open>2 ^ 53\<close>.
\<close>

definition lunation_quotient_binary64 :: "'date env \<Rightarrow> 'date \<Rightarrow> real" where
  "lunation_quotient_binary64 E date =
     binary64 (binary64 (binary64 (fromDate E date) - binary64 (LUNATION_BASE_JULIAN_DAY E))
               / binary64 SYNODIC_MONTH)"

definition lunationNumber_binary64 :: "'date env \<Rightarrow> 'date \<Rightarrow> int" where
  "lunationNumber_binary64 E date = Math_round (lunation_quotient_binary64 E date) + 1"

subsection \<open>The functions with a raise made explicit\<close>

text \<open>
  A call of an imported function either returns a number or raises, and a raise leaves
  the calling function at once, as a JavaScript exception does. \<^verbatim>\<open>JulianDay.fromDate\<close>
  and \<^verbatim>\<open>normalize\<close> are the two imported functions that \<^verbatim>\<open>Moon.ts\<close> calls on the way
  to a number; what they raise is left open (\<open>Inl x\<close>). Arithmetic and comparisons on
  numbers, \<^verbatim>\<open>Math.round\<close> and \<^verbatim>\<open>Math.cos\<close> do not raise. Each function below is the
  function of the same name above, statement by statement, with the two calls allowed
  to raise.
\<close>

record ('date, 'x) calls =
  fromDate_call :: "'date \<Rightarrow> 'x + real"
  normalize_call :: "real \<Rightarrow> 'x + real"

definition lunarAgePercent_x :: "('date, 'x) calls \<Rightarrow> 'date \<Rightarrow> 'x + real" where
  "lunarAgePercent_x C date =
     (case fromDate_call C date of
        Inl x \<Rightarrow> Inl x
      | Inr julian \<Rightarrow> normalize_call C ((julian - 2451550.1) / SYNODIC_MONTH))"

definition lunarAge_x :: "('date, 'x) calls \<Rightarrow> 'date \<Rightarrow> 'x + real" where
  "lunarAge_x C date =
     (case lunarAgePercent_x C date of
        Inl x \<Rightarrow> Inl x
      | Inr percent \<Rightarrow> Inr (percent * SYNODIC_MONTH))"

definition lunationNumber_x :: "('date, 'x) calls \<Rightarrow> 'date env \<Rightarrow> 'date \<Rightarrow> 'x + int" where
  "lunationNumber_x C E date =
     (case fromDate_call C date of
        Inl x \<Rightarrow> Inl x
      | Inr julian \<Rightarrow>
          Inr (Math_round ((julian - LUNATION_BASE_JULIAN_DAY E) / SYNODIC_MONTH) + 1))"

definition lunarDistance_x :: "('date, 'x) calls \<Rightarrow> 'date env \<Rightarrow> 'date \<Rightarrow> 'x + real" where
  "lunarDistance_x C E date =
     (case fromDate_call C date of
        Inl x \<Rightarrow> Inl x
      | Inr julian \<Rightarrow>
     (case lunarAgePercent_x C date of
        Inl x \<Rightarrow> Inl x
      | Inr agePercent \<Rightarrow>
     (let radians = agePercent * 2 * pi in
      case normalize_call C ((julian - 2451562.2) / ANOMALISTIC_MONTH E) of
        Inl x \<Rightarrow> Inl x
      | Inr fraction \<Rightarrow>
     (let percent = 2 * pi * fraction in
      Inr (60.4 - 3.3 * cos percent - 0.6 * cos (2 * radians - percent)
             - 0.5 * cos (2 * radians))))))"

definition lunarPhase_x ::
    "('date, 'x) calls \<Rightarrow> 'date \<Rightarrow> MoonOptions option \<Rightarrow> 'x + LunarPhase" where
  "lunarPhase_x C date options =
     (case lunarAge_x C date of
        Inl x \<Rightarrow> Inl x
      | Inr age \<Rightarrow>
          Inr (if age < 1.84566173161 then NEW
               else if age < 5.53698519483 then WAXING_CRESCENT
               else if age < 9.22830865805 then FIRST_QUARTER
               else if age < 12.91963212127 then WAXING_GIBBOUS
               else if age < 16.61095558449 then FULL
               else if age < 20.30227904771 then WANING_GIBBOUS
               else if age < 23.99360251093 then LAST_QUARTER
               else if age < 27.68492597415 then WANING_CRESCENT
               else NEW))"

definition lunarPhaseEmoji_x ::
    "('date, 'x) calls \<Rightarrow> 'date env \<Rightarrow> 'date \<Rightarrow> MoonOptions option
       \<Rightarrow> 'x + (error + string)" where
  "lunarPhaseEmoji_x C E date options =
     (case lunarPhase_x C date None of
        Inl x \<Rightarrow> Inl x
      | Inr phase \<Rightarrow> Inr (emojiForLunarPhase E (Member phase) options))"

definition isWaxing_x :: "('date, 'x) calls \<Rightarrow> 'date \<Rightarrow> 'x + bool" where
  "isWaxing_x C date =
     (case lunarAge_x C date of Inl x \<Rightarrow> Inl x | Inr age \<Rightarrow> Inr (age \<le> 14.765))"

definition isWaning_x :: "('date, 'x) calls \<Rightarrow> 'date \<Rightarrow> 'x + bool" where
  "isWaning_x C date =
     (case lunarAge_x C date of Inl x \<Rightarrow> Inl x | Inr age \<Rightarrow> Inr (age > 14.765))"

text \<open>Calls that always return: the Julian day itself, and the fraction of the specification.\<close>

definition sample_calls :: "(real, unit) calls" where
  "sample_calls =
     \<lparr>fromDate_call = (\<lambda>julian. Inr julian),
      normalize_call = (\<lambda>x. Inr (normalize_MathUtil x))\<rparr>"

section \<open>Properties\<close>

subsection \<open>Range of the normalised fraction\<close>

lemma normalize_MathUtil_range: "0 \<le> normalize_MathUtil x \<and> normalize_MathUtil x < 1"
  unfolding normalize_MathUtil_def by linarith

lemma SYNODIC_MONTH_pos: "0 < SYNODIC_MONTH"
  unfolding SYNODIC_MONTH_def by simp

lemma lunarAgePercent_range: "0 \<le> lunarAgePercent E d \<and> lunarAgePercent E d < 1"
  unfolding lunarAgePercent_def by (rule normalize_MathUtil_range)

lemma lunarAge_range: "0 \<le> lunarAge E d \<and> lunarAge E d < SYNODIC_MONTH"
proof -
  have p: "0 \<le> lunarAgePercent E d" "lunarAgePercent E d < 1"
    using lunarAgePercent_range [of E d] by simp_all
  have "lunarAgePercent E d * SYNODIC_MONTH < 1 * SYNODIC_MONTH"
    using p(2) SYNODIC_MONTH_pos by (rule mult_strict_right_mono)
  moreover have "0 \<le> lunarAgePercent E d * SYNODIC_MONTH"
    using p(1) SYNODIC_MONTH_pos by simp
  ultimately show ?thesis by (simp add: lunarAge_def)
qed

text \<open>
  C3. The normalised fraction \<open>x - floor x\<close> lies in \<open>[0, 1)\<close> for every real \<open>x\<close>,
  negative ones included. Hence for every date the age fraction lies in \<open>[0, 1)\<close>, the
  age lies in \<open>[0, 29.53058770576)\<close>, and the age is the age fraction times the synodic
  month.
\<close>

theorem lunarAge_bounds:
  "normalize_MathUtil x = x - of_int \<lfloor>x\<rfloor>
   \<and> 0 \<le> normalize_MathUtil x \<and> normalize_MathUtil x < 1
   \<and> 0 \<le> lunarAgePercent E d \<and> lunarAgePercent E d < 1
   \<and> 0 \<le> lunarAge E d \<and> lunarAge E d < 29.53058770576
   \<and> lunarAge E d = lunarAgePercent E d * SYNODIC_MONTH"
proof -
  have "lunarAge E d < 29.53058770576"
    using lunarAge_range [of E d] by (simp add: SYNODIC_MONTH_def)
  moreover have "lunarAge E d = lunarAgePercent E d * SYNODIC_MONTH"
    by (simp add: lunarAge_def)
  moreover have "normalize_MathUtil x = x - of_int \<lfloor>x\<rfloor>"
    by (simp add: normalize_MathUtil_def)
  ultimately show ?thesis
    using normalize_MathUtil_range [of x] lunarAgePercent_range [of E d]
      lunarAge_range [of E d]
    by simp
qed

subsection \<open>Waxing and waning\<close>

text \<open>
  C4. For every date exactly one of \<open>isWaxing\<close> and \<open>isWaning\<close> holds: the Moon is
  waxing when its age is at most 14.765 (the midpoint included) and waning when its age
  is greater.
\<close>

theorem isWaxing_xor_isWaning:
  "isWaxing E d = (lunarAge E d \<le> 14.765)
   \<and> isWaning E d = (lunarAge E d > 14.765)
   \<and> isWaxing E d \<noteq> isWaning E d"
  by (auto simp: isWaxing_def isWaning_def)

subsection \<open>Phase classification\<close>

text \<open>
  C2. For every date the phase is decided by the age alone, through the eight ascending
  thresholds of the source: NEW on \<open>[0, 1.84566173161)\<close> and from \<open>27.68492597415\<close> on,
  and one phase on each of the seven half-open intervals between consecutive thresholds.
  Each interval starts where the previous one ends, so they are contiguous and disjoint;
  the age lies in \<open>[0, SYNODIC_MONTH)\<close> and the last threshold lies below
  \<open>SYNODIC_MONTH\<close>, so together they cover that range.
\<close>

theorem lunarPhase_thresholds:
  "(lunarPhase E d options = NEW) =
      (lunarAge E d < 1.84566173161 \<or> 27.68492597415 \<le> lunarAge E d)
   \<and> (lunarPhase E d options = WAXING_CRESCENT) =
      (1.84566173161 \<le> lunarAge E d \<and> lunarAge E d < 5.53698519483)
   \<and> (lunarPhase E d options = FIRST_QUARTER) =
      (5.53698519483 \<le> lunarAge E d \<and> lunarAge E d < 9.22830865805)
   \<and> (lunarPhase E d options = WAXING_GIBBOUS) =
      (9.22830865805 \<le> lunarAge E d \<and> lunarAge E d < 12.91963212127)
   \<and> (lunarPhase E d options = FULL) =
      (12.91963212127 \<le> lunarAge E d \<and> lunarAge E d < 16.61095558449)
   \<and> (lunarPhase E d options = WANING_GIBBOUS) =
      (16.61095558449 \<le> lunarAge E d \<and> lunarAge E d < 20.30227904771)
   \<and> (lunarPhase E d options = LAST_QUARTER) =
      (20.30227904771 \<le> lunarAge E d \<and> lunarAge E d < 23.99360251093)
   \<and> (lunarPhase E d options = WANING_CRESCENT) =
      (23.99360251093 \<le> lunarAge E d \<and> lunarAge E d < 27.68492597415)
   \<and> 0 \<le> lunarAge E d \<and> lunarAge E d < SYNODIC_MONTH
   \<and> (27.68492597415::real) < SYNODIC_MONTH"
proof -
  have r: "0 \<le> lunarAge E d \<and> lunarAge E d < SYNODIC_MONTH"
    by (rule lunarAge_range)
  have s: "(27.68492597415::real) < SYNODIC_MONTH"
    by (simp add: SYNODIC_MONTH_def)
  show ?thesis
    unfolding lunarPhase_def Let_def using r s by auto
qed

text \<open>
  C9. The options never influence the phase: for every date and any two options
  arguments, present or omitted, with any hemisphere and any other keys, \<open>lunarPhase\<close>
  returns the same phase.
\<close>

theorem lunarPhase_ignores_options: "lunarPhase E d o1 = lunarPhase E d o2"
  by (simp add: lunarPhase_def)

subsection \<open>Emoji lookup\<close>

lemma emojiForLunarPhase_Member:
  "emojiForLunarPhase E (Member p) options =
     Inr ((if resolved_hemisphere options = Some (Member SOUTHERN)
           then NorthernHemisphereLunarEmoji E
           else SouthernHemisphereLunarEmoji E) (LunarPhase_key p))"
  by (cases p; cases options)
     (simp_all add: emojiForLunarPhase_def resolved_hemisphere_def)

lemma emojiForLunarPhase_Other:
  "emojiForLunarPhase E (Other v) options = Inl (InvalidLunarPhase v)"
  by (simp add: emojiForLunarPhase_def Let_def)

text \<open>
  C1. For each of the eight phases and every options argument, \<open>emojiForLunarPhase\<close>
  returns the entry of that phase in the Northern table when the resolved hemisphere is
  SOUTHERN, and in the Southern table otherwise (NORTHERN, the default, or any other
  value): the table of the opposite hemisphere.
\<close>

theorem emojiForLunarPhase_opposite_table:
  "emojiForLunarPhase E (Member p) options =
     Inr ((if resolved_hemisphere options = Some (Member SOUTHERN)
           then NorthernHemisphereLunarEmoji E
           else SouthernHemisphereLunarEmoji E) (LunarPhase_key p))"
  by (rule emojiForLunarPhase_Member)

theorem emojiForLunarPhase_opposite_table_witness:
  "emojiForLunarPhase sample_env (Member WAXING_CRESCENT)
       (Some [''hemisphere'' \<mapsto> Member SOUTHERN]) = Inr ''north WAXING_CRESCENT''
   \<and> emojiForLunarPhase sample_env (Member WAXING_CRESCENT)
       (Some [''hemisphere'' \<mapsto> Member NORTHERN]) = Inr ''south WAXING_CRESCENT''
   \<and> emojiForLunarPhase sample_env (Member WAXING_CRESCENT) None
       = Inr ''south WAXING_CRESCENT''"
  using emojiForLunarPhase_opposite_table
          [of sample_env WAXING_CRESCENT "Some [''hemisphere'' \<mapsto> Member SOUTHERN]"]
        emojiForLunarPhase_opposite_table
          [of sample_env WAXING_CRESCENT "Some [''hemisphere'' \<mapsto> Member NORTHERN]"]
        emojiForLunarPhase_opposite_table [of sample_env WAXING_CRESCENT None]
  by (simp add: sample_env_def resolved_hemisphere_def MoonOptionsFactory_def)

text \<open>
  With calls that return what the functions above take from the environment, the
  functions with an explicit raise return the values of the functions above.
\<close>

lemma calls_agree:
  assumes f: "fromDate_call C d = Inr (fromDate E d)"
    and n: "\<And>x. normalize_call C x = Inr (normalize_MathUtil x)"
  shows "lunarAgePercent_x C d = Inr (lunarAgePercent E d)"
    and "lunarAge_x C d = Inr (lunarAge E d)"
    and "lunationNumber_x C E d = Inr (lunationNumber E d)"
    and "lunarDistance_x C E d = Inr (lunarDistance E d)"
    and "lunarPhase_x C d options = Inr (lunarPhase E d options)"
    and "lunarPhaseEmoji_x C E d options = Inr (lunarPhaseEmoji E d options)"
    and "isWaxing_x C d = Inr (isWaxing E d)"
    and "isWaning_x C d = Inr (isWaning E d)"
proof -
  show p: "lunarAgePercent_x C d = Inr (lunarAgePercent E d)"
    by (simp add: lunarAgePercent_x_def lunarAgePercent_def f n)
  show a: "lunarAge_x C d = Inr (lunarAge E d)"
    by (simp add: lunarAge_x_def lunarAge_def p)
  show "lunationNumber_x C E d = Inr (lunationNumber E d)"
    by (simp add: lunationNumber_x_def lunationNumber_def f)
  show "lunarDistance_x C E d = Inr (lunarDistance E d)"
    by (simp add: lunarDistance_x_def lunarDistance_def Let_def f n p)
  show ph: "lunarPhase_x C d options = Inr (lunarPhase E d options)" for options
    by (simp add: lunarPhase_x_def lunarPhase_def Let_def a)
  show "lunarPhaseEmoji_x C E d options = Inr (lunarPhaseEmoji E d options)"
    by (simp add: lunarPhaseEmoji_x_def lunarPhaseEmoji_def Let_def ph)
  show "isWaxing_x C d = Inr (isWaxing E d)"
    by (simp add: isWaxing_x_def isWaxing_def a)
  show "isWaning_x C d = Inr (isWaning E d)"
    by (simp add: isWaning_x_def isWaning_def a)
qed

lemma lunarAgePercent_x_returns:
  assumes "\<not> isl (fromDate_call C d)" and "\<forall>x. \<not> isl (normalize_call C x)"
  shows "\<not> isl (lunarAgePercent_x C d)"
  using assms by (auto simp: lunarAgePercent_x_def split: sum.splits)

lemma lunarAge_x_returns:
  assumes "\<not> isl (fromDate_call C d)" and "\<forall>x. \<not> isl (normalize_call C x)"
  shows "\<not> isl (lunarAge_x C d)"
  using lunarAgePercent_x_returns [OF assms]
  by (auto simp: lunarAge_x_def split: sum.splits)

lemma lunarPhase_x_returns:
  assumes "\<not> isl (fromDate_call C d)" and "\<forall>x. \<not> isl (normalize_call C x)"
  shows "\<not> isl (lunarPhase_x C d options)"
  using lunarAge_x_returns [OF assms]
  by (auto simp: lunarPhase_x_def split: sum.splits)

lemma lunarDistance_x_returns:
  assumes "\<not> isl (fromDate_call C d)" and "\<forall>x. \<not> isl (normalize_call C x)"
  shows "\<not> isl (lunarDistance_x C E d)"
proof -
  obtain j where j: "fromDate_call C d = Inr j"
    using assms(1) by (cases "fromDate_call C d") auto
  obtain a where a: "lunarAgePercent_x C d = Inr a"
    using lunarAgePercent_x_returns [OF assms] by (cases "lunarAgePercent_x C d") auto
  have "\<not> isl (normalize_call C ((j - 2451562.2) / ANOMALISTIC_MONTH E))"
    using assms(2) by blast
  then obtain n where n: "normalize_call C ((j - 2451562.2) / ANOMALISTIC_MONTH E) = Inr n"
    by (cases "normalize_call C ((j - 2451562.2) / ANOMALISTIC_MONTH E)") auto
  show ?thesis
    using n by (simp add: lunarDistance_x_def Let_def j a)
qed

text \<open>
  C8. \<open>emojiForLunarPhase\<close> fails, with the invalid-phase error, exactly when its phase
  argument is not one of the eight members of the enumeration; called by
  \<open>lunarPhaseEmoji\<close> it never fails. Every other function returns a value for every
  date on which \<^verbatim>\<open>JulianDay.fromDate\<close> returns, \<^verbatim>\<open>normalize\<close> returning on every
  number: \<open>lunarAge\<close>, \<open>lunarAgePercent\<close>, \<open>lunationNumber\<close>, \<open>lunarDistance\<close>,
  \<open>lunarPhase\<close>, \<open>lunarPhaseEmoji\<close>, \<open>isWaxing\<close> and \<open>isWaning\<close> raise nothing of
  their own.
\<close>

theorem raises_only_on_invalid_phase:
  assumes "\<not> isl (fromDate_call C d)" and "\<forall>x. \<not> isl (normalize_call C x)"
  shows "isl (emojiForLunarPhase E phase options) = (\<not> is_member phase)
   \<and> emojiForLunarPhase E (Other v) options = Inl (InvalidLunarPhase v)
   \<and> \<not> isl (lunarPhaseEmoji E d' options)
   \<and> \<not> isl (lunarAge_x C d)
   \<and> \<not> isl (lunarAgePercent_x C d)
   \<and> \<not> isl (lunationNumber_x C E d)
   \<and> \<not> isl (lunarDistance_x C E d)
   \<and> \<not> isl (lunarPhase_x C d options)
   \<and> (\<exists>glyph. lunarPhaseEmoji_x C E d options = Inr (Inr glyph))
   \<and> \<not> isl (isWaxing_x C d)
   \<and> \<not> isl (isWaning_x C d)"
proof -
  have 1: "isl (emojiForLunarPhase E phase options) = (\<not> is_member phase)"
    by (cases phase) (simp_all add: emojiForLunarPhase_Member emojiForLunarPhase_Other)
  have 2: "\<not> isl (lunarPhaseEmoji E d' options)"
    by (simp add: lunarPhaseEmoji_def Let_def emojiForLunarPhase_Member)
  have 3: "\<not> isl (lunationNumber_x C E d)"
    using assms(1) by (auto simp: lunationNumber_x_def split: sum.splits)
  have 4: "\<exists>glyph. lunarPhaseEmoji_x C E d options = Inr (Inr glyph)"
    using lunarPhase_x_returns [OF assms, of None]
    by (auto simp: lunarPhaseEmoji_x_def emojiForLunarPhase_Member split: sum.splits)
  have 5: "\<not> isl (isWaxing_x C d)" "\<not> isl (isWaning_x C d)"
    using lunarAge_x_returns [OF assms]
    by (auto simp: isWaxing_x_def isWaning_x_def split: sum.splits)
  show ?thesis
    using 1 2 3 4 5 lunarAge_x_returns [OF assms] lunarAgePercent_x_returns [OF assms]
      lunarDistance_x_returns [OF assms] lunarPhase_x_returns [OF assms]
    by (simp add: emojiForLunarPhase_Other)
qed

theorem raises_only_on_invalid_phase_witness:
  "\<not> isl (fromDate_call sample_calls 2451550.1)
   \<and> (\<forall>x. \<not> isl (normalize_call sample_calls x))
   \<and> emojiForLunarPhase sample_env (Other ''Blue'') None = Inl (InvalidLunarPhase ''Blue'')
   \<and> lunarAge_x sample_calls 2451550.1 = Inr 0
   \<and> lunationNumber_x sample_calls sample_env 2451550.1 = Inr 953
   \<and> lunarPhase_x sample_calls 2451550.1 None = Inr NEW
   \<and> lunarPhaseEmoji_x sample_calls sample_env 2451550.1 None = Inr (Inr ''south NEW'')
   \<and> isWaxing_x sample_calls 2451550.1 = Inr True
   \<and> isWaning_x sample_calls 2451550.1 = Inr False
   \<and> \<not> isl (lunarDistance_x sample_calls sample_env 2451550.1)"
proof -
  have h1: "\<not> isl (fromDate_call sample_calls 2451550.1)"
    by (simp add: sample_calls_def)
  have h2: "\<forall>x. \<not> isl (normalize_call sample_calls x)"
    by (simp add: sample_calls_def)
  have p: "lunarAgePercent_x sample_calls 2451550.1 = Inr 0"
    by (simp add: lunarAgePercent_x_def sample_calls_def normalize_MathUtil_def)
  have a: "lunarAge_x sample_calls 2451550.1 = Inr 0"
    by (simp add: lunarAge_x_def p)
  have l: "lunationNumber_x sample_calls sample_env 2451550.1 = Inr 953"
    by (simp add: lunationNumber_x_def sample_calls_def sample_env_def Math_round_def
        SYNODIC_MONTH_def)
  have ph: "lunarPhase_x sample_calls 2451550.1 None = Inr NEW"
    by (simp add: lunarPhase_x_def a)
  have e: "lunarPhaseEmoji_x sample_calls sample_env 2451550.1 None = Inr (Inr ''south NEW'')"
    by (simp add: lunarPhaseEmoji_x_def ph emojiForLunarPhase_Member resolved_hemisphere_def
        MoonOptionsFactory_def sample_env_def)
  show ?thesis
    using raises_only_on_invalid_phase [OF h1 h2, of sample_env "Other ''Blue''" None "''Blue''" "2451550.1"]
      h1 h2 a l ph e
    by (simp add: isWaxing_x_def isWaning_x_def)
qed

text \<open>
  C10. For every date and options argument, \<open>lunarPhaseEmoji\<close> is the emoji lookup
  applied to the phase of the date, with the options handed unchanged to the lookup;
  the classification is called without them, and would return the same phase with any.
\<close>

theorem lunarPhaseEmoji_composition:
  "lunarPhaseEmoji E d options = emojiForLunarPhase E (Member (lunarPhase E d None)) options
   \<and> lunarPhaseEmoji E d options =
       emojiForLunarPhase E (Member (lunarPhase E d options)) options"
  by (simp add: lunarPhaseEmoji_def lunarPhase_def Let_def)

subsection \<open>Lunation number\<close>

lemma Math_round_nonneg: "0 \<le> x \<Longrightarrow> Math_round x = round_half_away_from_zero x"
  by (simp add: Math_round_def round_half_away_from_zero_def)

lemma Math_round_not_tie_away:
  assumes "frac x \<noteq> 1 / 2"
  shows "Math_round x = round_half_away_from_zero x"
proof (cases "0 \<le> x")
  case True
  then show ?thesis by (rule Math_round_nonneg)
next
  case False
  have fl: "of_int \<lfloor>x\<rfloor> \<le> x" "x < of_int \<lfloor>x\<rfloor> + 1" by linarith+
  have "frac x < 1 / 2 \<or> 1 / 2 < frac x" using assms by linarith
  then have "\<lfloor>x + 1 / 2\<rfloor> = \<lceil>x - 1 / 2\<rceil>"
  proof
    assume lt: "frac x < 1 / 2"
    have "\<lfloor>x + 1 / 2\<rfloor> = \<lfloor>x\<rfloor>" using lt unfolding frac_def by linarith
    moreover have "\<lceil>x - 1 / 2\<rceil> = \<lfloor>x\<rfloor>"
    proof (rule ceiling_unique)
      show "of_int \<lfloor>x\<rfloor> - 1 < x - 1 / 2" using fl by linarith
      show "x - 1 / 2 \<le> of_int \<lfloor>x\<rfloor>" using lt unfolding frac_def by linarith
    qed
    ultimately show ?thesis by simp
  next
    assume gt: "1 / 2 < frac x"
    have "\<lfloor>x + 1 / 2\<rfloor> = \<lfloor>x\<rfloor> + 1" using gt unfolding frac_def by linarith
    moreover have "\<lceil>x - 1 / 2\<rceil> = \<lfloor>x\<rfloor> + 1"
    proof (rule ceiling_unique)
      show "of_int (\<lfloor>x\<rfloor> + 1) - 1 < x - 1 / 2"
        using gt unfolding frac_def by simp
      show "x - 1 / 2 \<le> of_int (\<lfloor>x\<rfloor> + 1)"
        using fl(2) by (simp only: of_int_add of_int_1)
    qed
    ultimately show ?thesis by simp
  qed
  then show ?thesis using False
    by (simp add: Math_round_def round_half_away_from_zero_def)
qed

lemma Math_round_not_tie_even:
  assumes "frac x \<noteq> 1 / 2"
  shows "Math_round x = round_half_to_even x"
proof -
  have "frac x < 1 / 2 \<or> 1 / 2 < frac x" using assms by linarith
  then show ?thesis
  proof
    assume lt: "frac x < 1 / 2"
    then have "\<lfloor>x + 1 / 2\<rfloor> = \<lfloor>x\<rfloor>" unfolding frac_def by linarith
    then show ?thesis using lt
      by (simp add: Math_round_def round_half_to_even_def Let_def frac_def)
  next
    assume gt: "1 / 2 < frac x"
    then have "\<lfloor>x + 1 / 2\<rfloor> = \<lfloor>x\<rfloor> + 1" unfolding frac_def by linarith
    then show ?thesis using gt
      by (simp add: Math_round_def round_half_to_even_def Let_def frac_def)
  qed
qed



text \<open>
  Evaluating \<open>binary64\<close>: for \<open>x\<close> between \<open>2 ^ n\<close> and \<open>2 ^ (n + 1)\<close> the unit in
  the last place is \<open>2 ^ n / 2 ^ 52\<close>.
\<close>

lemma binary64_eval:
  assumes "2 ^ n \<le> \<bar>x\<bar>" and "\<bar>x\<bar> < 2 ^ Suc n" and "n \<le> 52"
  shows "binary64 x = of_int (round_half_to_even (x * 2 ^ (52 - n))) / 2 ^ (52 - n)"
proof -
  have pos: "0 < \<bar>x\<bar>" using assms(1) by (smt (verit) zero_less_power)
  then have nz: "x \<noteq> 0" by simp
  have "(2::real) powr of_int (int n) \<le> \<bar>x\<bar>"
    using assms(1) by (simp add: powr_realpow)
  moreover have "\<bar>x\<bar> < (2::real) powr of_int (int n + 1)"
  proof -
    have "(2::real) powr real (Suc n) = 2 ^ Suc n"
      by (rule powr_realpow) simp
    moreover have "real_of_int (int n + 1) = real (Suc n)" by simp
    ultimately have "(2::real) powr of_int (int n + 1) = 2 ^ Suc n"
      by (simp only:)
    then show ?thesis using assms(2) by (simp only:)
  qed
  ultimately have e: "\<lfloor>log 2 \<bar>x\<bar>\<rfloor> = int n"
    using pos by (simp add: floor_log_eq_powr_iff)
  have "(2::real) powr (real n - 52) = 2 powr (- real (52 - n))"
    using assms(3) by (simp add: of_nat_diff)
  also have "\<dots> = 1 / 2 ^ (52 - n)"
    by (simp add: powr_minus powr_realpow inverse_eq_divide)
  finally have u: "(2::real) powr (real n - 52) = 1 / 2 ^ (52 - n)" .
  show ?thesis
    using nz by (simp add: binary64_def Let_def e u)
qed


lemma binary64_LUNATION_BASE:
  "binary64 2423436.6115277777 = 2423436.6115277777425944805145263671875"
  by (subst binary64_eval [where n = 21]) (simp_all add: round_half_to_even_def Let_def)

lemma binary64_SYNODIC_MONTH:
  "binary64 SYNODIC_MONTH = 29.5305877057599985846536583267152309417724609375"
  unfolding SYNODIC_MONTH_def
  by (subst binary64_eval [where n = 4]) (simp_all add: round_half_to_even_def Let_def)

lemma binary64_base_is_double:
  "binary64 2423436.6115277777425944805145263671875
     = 2423436.6115277777425944805145263671875"
  by (subst binary64_eval [where n = 21]) (simp_all add: round_half_to_even_def Let_def)

lemma binary64_tie_day:
  "binary64 2338167.03952739574015140533447265625 = 2338167.03952739574015140533447265625"
  by (subst binary64_eval [where n = 21]) (simp_all add: round_half_to_even_def Let_def)

lemma binary64_tie_difference:
  "binary64 (2338167.03952739574015140533447265625
               - 2423436.6115277777425944805145263671875)
     = - 183115011542779 / 2147483648"
  by (subst binary64_eval [where n = 16]) (simp_all add: round_half_to_even_def Let_def)

lemma binary64_tie_quotient:
  "binary64 ((- 183115011542779 / 2147483648)
               / 29.5305877057599985846536583267152309417724609375)
     = - 5775 / 2"
  by (subst binary64_eval [where n = 11]) (simp_all add: round_half_to_even_def Let_def)

lemma lunation_quotient_binary64_tie:
  "lunation_quotient_binary64 sample_env 2338167.03952739574015140533447265625 = - 5775 / 2"
  by (simp only: lunation_quotient_binary64_def sample_env_def env.simps binary64_tie_day
      binary64_LUNATION_BASE binary64_SYNODIC_MONTH binary64_tie_difference
      binary64_tie_quotient)

lemma lunation_quotient_binary64_base:
  "lunation_quotient_binary64 sample_env 2423436.6115277777425944805145263671875 = 0"
proof -
  have z: "binary64 0 = 0" by (simp add: binary64_def)
  have "binary64 (binary64 2423436.6115277777425944805145263671875
                    - binary64 2423436.6115277777) = 0"
    by (simp only: binary64_base_is_double binary64_LUNATION_BASE diff_self z)
  then show ?thesis
    by (simp only: lunation_quotient_binary64_def sample_env_def env.simps
        div_0 z)
qed

text \<open>
  C5, as amended. For every date, \<open>lunationNumber\<close> is \<open>Math.round q + 1\<close>, where \<open>q\<close>
  is the quotient \<open>(julianDay - LUNATION_BASE_JULIAN_DAY) / SYNODIC_MONTH\<close> and
  \<open>Math.round q\<close> is \<open>floor (q + 1/2)\<close>: a tie at a half-cycle boundary goes towards
  plus infinity. This is rounding half away from zero whenever the quotient is not
  negative, and it is both rounding half away from zero and rounding half to even
  whenever the quotient is not a tie. It holds of the quotient computed on doubles and
  of the quotient of reals.
\<close>

theorem lunationNumber_rounding:
  "lunationNumber_binary64 E d = \<lfloor>lunation_quotient_binary64 E d + 1 / 2\<rfloor> + 1
   \<and> (0 \<le> lunation_quotient_binary64 E d \<longrightarrow>
        lunationNumber_binary64 E d =
          round_half_away_from_zero (lunation_quotient_binary64 E d) + 1)
   \<and> (frac (lunation_quotient_binary64 E d) \<noteq> 1 / 2 \<longrightarrow>
        lunationNumber_binary64 E d =
          round_half_away_from_zero (lunation_quotient_binary64 E d) + 1
        \<and> lunationNumber_binary64 E d =
          round_half_to_even (lunation_quotient_binary64 E d) + 1)
   \<and> lunationNumber E d' =
     \<lfloor>(fromDate E d' - LUNATION_BASE_JULIAN_DAY E) / SYNODIC_MONTH + 1 / 2\<rfloor> + 1
   \<and> (0 \<le> (fromDate E d' - LUNATION_BASE_JULIAN_DAY E) / SYNODIC_MONTH \<longrightarrow>
        lunationNumber E d' =
          round_half_away_from_zero
            ((fromDate E d' - LUNATION_BASE_JULIAN_DAY E) / SYNODIC_MONTH) + 1)
   \<and> (frac ((fromDate E d' - LUNATION_BASE_JULIAN_DAY E) / SYNODIC_MONTH) \<noteq> 1 / 2 \<longrightarrow>
        lunationNumber E d' =
          round_half_away_from_zero
            ((fromDate E d' - LUNATION_BASE_JULIAN_DAY E) / SYNODIC_MONTH) + 1
        \<and> lunationNumber E d' =
          round_half_to_even
            ((fromDate E d' - LUNATION_BASE_JULIAN_DAY E) / SYNODIC_MONTH) + 1)"
  unfolding lunationNumber_def lunationNumber_binary64_def
  using Math_round_nonneg Math_round_not_tie_away Math_round_not_tie_even
  by (simp add: Math_round_def)

text \<open>
  On doubles, the Julian day of the base itself: the quotient is 0 and the lunation
  number 1. On reals, a date one synodic month after the base: the quotient is 1 and the
  lunation number 2. Neither quotient is negative or a tie.
\<close>

theorem lunationNumber_rounding_witness:
  "0 \<le> lunation_quotient_binary64 sample_env 2423436.6115277777425944805145263671875
   \<and> frac (lunation_quotient_binary64 sample_env 2423436.6115277777425944805145263671875)
       \<noteq> 1 / 2
   \<and> lunationNumber_binary64 sample_env 2423436.6115277777425944805145263671875 = 1
   \<and> round_half_away_from_zero
       (lunation_quotient_binary64 sample_env 2423436.6115277777425944805145263671875) + 1
       = 1
   \<and> round_half_to_even
       (lunation_quotient_binary64 sample_env 2423436.6115277777425944805145263671875) + 1
       = 1
   \<and> 0 \<le> (fromDate sample_env (2423436.6115277777 + SYNODIC_MONTH)
           - LUNATION_BASE_JULIAN_DAY sample_env) / SYNODIC_MONTH
   \<and> frac ((fromDate sample_env (2423436.6115277777 + SYNODIC_MONTH)
           - LUNATION_BASE_JULIAN_DAY sample_env) / SYNODIC_MONTH) \<noteq> 1 / 2
   \<and> lunationNumber sample_env (2423436.6115277777 + SYNODIC_MONTH) = 2
   \<and> round_half_away_from_zero
       ((fromDate sample_env (2423436.6115277777 + SYNODIC_MONTH)
           - LUNATION_BASE_JULIAN_DAY sample_env) / SYNODIC_MONTH) + 1 = 2
   \<and> round_half_to_even
       ((fromDate sample_env (2423436.6115277777 + SYNODIC_MONTH)
           - LUNATION_BASE_JULIAN_DAY sample_env) / SYNODIC_MONTH) + 1 = 2"
proof -
  have q: "lunation_quotient_binary64 sample_env 2423436.6115277777425944805145263671875 = 0"
    by (rule lunation_quotient_binary64_base)
  have r: "(fromDate sample_env (2423436.6115277777 + SYNODIC_MONTH)
           - LUNATION_BASE_JULIAN_DAY sample_env) / SYNODIC_MONTH = 1"
    by (simp add: sample_env_def SYNODIC_MONTH_def)
  show ?thesis
    using lunationNumber_rounding [of sample_env "2423436.6115277777425944805145263671875"
                "2423436.6115277777 + SYNODIC_MONTH"]
    unfolding q r by simp
qed

text \<open>
  C5 as stated fails at a tie before the base. The Julian day
  2338167.03952739574015140533447265625 is a double (JavaScript prints it as
  2338167.0395273957; it is 31 July 1689, 12:56:55.167 UTC). The subtraction of the base
  is exact, and the division by \<open>SYNODIC_MONTH\<close> rounds to the double \<open>-2887.5\<close>.
  \<open>Math.round\<close> gives \<open>-2887\<close> and the lunation number \<open>-2886\<close>, while rounding half
  away from zero and rounding half to even both give \<open>-2888\<close> and the number \<open>-2887\<close>.
\<close>

theorem lunationNumber_binary64_tie_counterexample:
  "binary64 2338167.03952739574015140533447265625 = 2338167.03952739574015140533447265625
   \<and> lunation_quotient_binary64 sample_env 2338167.03952739574015140533447265625
       = - 5775 / 2
   \<and> lunationNumber_binary64 sample_env 2338167.03952739574015140533447265625 = - 2886
   \<and> round_half_away_from_zero (- 5775 / 2) + 1 = - 2887
   \<and> round_half_to_even (- 5775 / 2) + 1 = - 2887
   \<and> lunationNumber_binary64 sample_env 2338167.03952739574015140533447265625 \<noteq>
       round_half_away_from_zero
         (lunation_quotient_binary64 sample_env 2338167.03952739574015140533447265625) + 1
   \<and> lunationNumber_binary64 sample_env 2338167.03952739574015140533447265625 \<noteq>
       round_half_to_even
         (lunation_quotient_binary64 sample_env 2338167.03952739574015140533447265625) + 1"
proof -
  have a: "round_half_away_from_zero (- 5775 / 2) = - 2888"
    by (simp add: round_half_away_from_zero_def ceiling_def)
  have e: "round_half_to_even (- 5775 / 2) = - 2888"
    by (simp add: round_half_to_even_def Let_def)
  have m: "Math_round (- 5775 / 2) = - 2887"
    by (simp add: Math_round_def)
  show ?thesis
    unfolding lunationNumber_binary64_def lunation_quotient_binary64_tie a e m
    using binary64_tie_day by simp
qed



subsection \<open>Distance\<close>

lemma cosine_terms_lower:
  fixes p u :: real
  shows "- 4.4 \<le> - 3.3 * cos p - 0.6 * cos (u - p) - 0.5 * cos u"
  using cos_le_one [of p] cos_le_one [of "u - p"] cos_le_one [of u] by linarith

text \<open>
  The three cosines cannot all be \<open>-1\<close>: for a fixed \<open>p\<close> the last two terms are at most
  \<open>sqrt (0.61 + 0.6 * cos p)\<close> (Cauchy-Schwarz), and that is at most \<open>3.4 + 3.3 * cos p\<close>.
\<close>

lemma cosine_terms_upper:
  fixes p u :: real
  shows "- 3.3 * cos p - 0.6 * cos (u - p) - 0.5 * cos u \<le> 3.4"
proof -
  define a b x y where "a = cos p" and "b = sin p" and "x = cos u" and "y = sin u"
  define c e t m where "c = 0.6 * a + 0.5" and "e = 0.6 * b"
    and "t = c * x + e * y" and "m = 3.4 + 3.3 * a"
  have ab: "a\<^sup>2 + b\<^sup>2 = 1" and xy: "x\<^sup>2 + y\<^sup>2 = 1"
    by (simp_all add: a_def b_def x_def y_def)
  have a_ge: "- 1 \<le> a" by (simp add: a_def)
  have lagrange: "t\<^sup>2 + (c * y - e * x)\<^sup>2 = (c\<^sup>2 + e\<^sup>2) * (x\<^sup>2 + y\<^sup>2)"
    by (simp add: t_def power2_eq_square algebra_simps)
  have "t\<^sup>2 \<le> t\<^sup>2 + (c * y - e * x)\<^sup>2" by simp
  then have t_le: "t\<^sup>2 \<le> c\<^sup>2 + e\<^sup>2" by (simp add: lagrange xy)
  have "c\<^sup>2 + e\<^sup>2 = 0.36 * (a\<^sup>2 + b\<^sup>2) + 0.6 * a + 0.25"
    by (simp add: c_def e_def power2_eq_square algebra_simps)
  then have ce: "c\<^sup>2 + e\<^sup>2 = 0.61 + 0.6 * a" by (simp add: ab)
  have "m\<^sup>2 - (0.61 + 0.6 * a) = (a + 1) * (10.89 * a + 10.95)"
    unfolding m_def power2_eq_square by (simp add: field_simps)
  moreover have "0 \<le> (a + 1) * (10.89 * a + 10.95)"
    using a_ge by (intro mult_nonneg_nonneg) simp_all
  ultimately have "0.61 + 0.6 * a \<le> m\<^sup>2" by simp
  with t_le ce have "(- t)\<^sup>2 \<le> m\<^sup>2" by simp
  moreover have "0 \<le> m" using a_ge by (simp add: m_def)
  ultimately have "- t \<le> m" by (rule power2_le_imp_le)
  moreover have "cos (u - p) = x * a + y * b"
    by (simp add: cos_diff a_def b_def x_def y_def)
  ultimately show ?thesis
    by (simp add: t_def c_def e_def m_def a_def x_def algebra_simps)
qed

text \<open>
  C7. For every date, with \<open>R = lunarAgePercent * 2 * pi\<close> and
  \<open>P = 2 * pi * normalize ((julianDay - 2451562.2) / ANOMALISTIC_MONTH)\<close>, the distance
  is \<open>60.4 - 3.3 * cos P - 0.6 * cos (2 * R - P) - 0.5 * cos (2 * R)\<close>, and it lies
  between 56.0 and 63.8 Earth radii. \<open>ANOMALISTIC_MONTH\<close> is taken positive, as a length
  of time is: the division by it is then the quotient of reals.
\<close>

theorem lunarDistance_formula_and_range:
  assumes "0 < ANOMALISTIC_MONTH E"
  shows "(let R = lunarAgePercent E d * 2 * pi;
              P = 2 * pi * normalize_MathUtil
                             ((fromDate E d - 2451562.2) / ANOMALISTIC_MONTH E)
          in lunarDistance E d =
               60.4 - 3.3 * cos P - 0.6 * cos (2 * R - P) - 0.5 * cos (2 * R))
         \<and> 56 \<le> lunarDistance E d \<and> lunarDistance E d \<le> 63.8"
proof -
  define P where "P = 2 * pi * normalize_MathUtil
                          ((fromDate E d - 2451562.2) / ANOMALISTIC_MONTH E)"
  define U where "U = 2 * (lunarAgePercent E d * 2 * pi)"
  have eq: "lunarDistance E d = 60.4 + (- 3.3 * cos P - 0.6 * cos (U - P) - 0.5 * cos U)"
    by (simp add: lunarDistance_def Let_def P_def U_def)
  have "56 \<le> lunarDistance E d"
    unfolding eq using cosine_terms_lower [of P U] by simp
  moreover have "lunarDistance E d \<le> 63.8"
    unfolding eq using cosine_terms_upper [of P U] by simp
  moreover have "let R = lunarAgePercent E d * 2 * pi;
              P = 2 * pi * normalize_MathUtil
                             ((fromDate E d - 2451562.2) / ANOMALISTIC_MONTH E)
          in lunarDistance E d =
               60.4 - 3.3 * cos P - 0.6 * cos (2 * R - P) - 0.5 * cos (2 * R)"
    by (simp add: lunarDistance_def Let_def)
  ultimately show ?thesis by simp
qed

theorem lunarDistance_formula_and_range_witness:
  "0 < ANOMALISTIC_MONTH sample_env
   \<and> 56 \<le> lunarDistance sample_env 2451562.2
   \<and> lunarDistance sample_env 2451562.2 \<le> 63.8"
proof -
  have h: "0 < ANOMALISTIC_MONTH sample_env" by (simp add: sample_env_def)
  show ?thesis
    using h lunarDistance_formula_and_range [OF h, of "2451562.2"] by simp
qed

end
